theory Spec2Isabelle
  imports Main
begin

section \<open>Request tracing middleware (pkg/middleware/request_tracing.go)\<close>

subsection \<open>Request contexts\<close>

text \<open>
  A Go \<open>context.Context\<close> built with \<open>context.WithValue\<close> is a chain of immutable
  nodes, each holding one key, one value and its parent. The keys that occur here are
  the package-private \<open>routeOperationNameKey\<close>, the key under which the tracing
  library stores the active span, and the keys of other packages. Values are Go
  interface values: \<open>nil\<close>, a string, a span, or something else.
\<close>

datatype ctx_key = routeOperationNameKey | currentSpanKey | otherKey string

datatype ctx_val = NilVal | StringVal string | SpanVal nat | OtherVal string

datatype Context = Background | WithValue Context ctx_key ctx_val

text \<open>\<open>ctx.Value(key)\<close>: the innermost node with that key wins; the root yields \<open>nil\<close>.\<close>

fun Value :: "Context \<Rightarrow> ctx_key \<Rightarrow> ctx_val" where
  "Value Background key = NilVal"
| "Value (WithValue parent k v) key = (if k = key then v else Value parent key)"

text \<open>Whether some node of the chain was added under \<open>routeOperationNameKey\<close>.\<close>

fun route_name_provided :: "Context \<Rightarrow> bool" where
  "route_name_provided Background = False"
| "route_name_provided (WithValue parent k v) =
     (k = routeOperationNameKey \<or> route_name_provided parent)"

subsection \<open>Requests and the macaron context\<close>

type_synonym header = "(string \<times> string list) list"

record request =
  Method :: string
  URL_Path :: string
  RequestURI :: string
  Header :: header
  req_Context :: Context

text \<open>
  The fields of \<open>*macaron.Context\<close> that the middleware touches: \<open>c.Req\<close>, the request
  registered with \<open>c.Map\<close> for injection into later handlers, and the status held by the
  response writer (\<open>rw.Status()\<close>; \<open>res\<close> and \<open>c.Resp\<close> are the same writer).
\<close>

record macaron_Context =
  Req :: request
  Mapped :: request
  Resp_Status :: int

text \<open>
  \<open>c.Next()\<close> runs the rest of the handler chain on the macaron context. It either
  returns, or panics, and a panic unwinds through the caller.
\<close>

datatype outcome = Return macaron_Context | Panic macaron_Context

subsection \<open>The calls received by the tracer\<close>

datatype attr = Int_attr string int | String_attr string string

datatype code = Unset | Error | Ok

datatype link = LinkFromContext Context

text \<open>
  The tracer is observed through the calls this middleware makes on it and on the span
  it hands out, oldest first. A span is identified by a number.
\<close>

datatype span_call =
    Start nat string link
  | SetName nat string
  | SetAttributes nat attr
  | SetStatus nat code string
  | End nat

text \<open>The spans started so far: number, name and link of every \<open>Start\<close> call.\<close>

fun starts :: "span_call list \<Rightarrow> (nat \<times> string \<times> link) list" where
  "starts [] = []"
| "starts (Start i n l # cs) = (i, n, l) # starts cs"
| "starts (_ # cs) = starts cs"

text \<open>
  Modelled from the spec: \<open>tracing.Tracer.Start\<close> (pkg/infra/tracing, on top of the
  OpenTelemetry library) is missing from the middleware's file. It starts a new span with
  the given name and links and returns a context derived from the given one that carries
  the span. The new span gets the first number no earlier \<open>Start\<close> call has handed out.
\<close>

definition Tracer_Start ::
  "span_call list \<Rightarrow> Context \<Rightarrow> string \<Rightarrow> link \<Rightarrow> Context \<times> nat \<times> span_call list" where
  "Tracer_Start tr ctx spanName l =
     (let span = length (starts tr)
      in (WithValue ctx currentSpanKey (SpanVal span), span, tr @ [Start span spanName l]))"

text \<open>Further readers of the call log: the spans ended.\<close>

fun ends :: "span_call list \<Rightarrow> nat list" where
  "ends [] = []"
| "ends (End i # cs) = i # ends cs"
| "ends (_ # cs) = ends cs"

text \<open>The names a span was given, by \<open>Start\<close> and by \<open>SetName\<close>, in order.\<close>

fun names :: "nat \<Rightarrow> span_call list \<Rightarrow> string list" where
  "names span [] = []"
| "names span (Start i n l # cs) = (if i = span then n # names span cs else names span cs)"
| "names span (SetName i n # cs) = (if i = span then n # names span cs else names span cs)"
| "names span (_ # cs) = names span cs"


fun attributes :: "nat \<Rightarrow> span_call list \<Rightarrow> attr list" where
  "attributes span [] = []"
| "attributes span (SetAttributes i a # cs) =
     (if i = span then a # attributes span cs else attributes span cs)"
| "attributes span (_ # cs) = attributes span cs"

fun statuses :: "nat \<Rightarrow> span_call list \<Rightarrow> (code \<times> string) list" where
  "statuses span [] = []"
| "statuses span (SetStatus i c m # cs) =
     (if i = span then (c, m) # statuses span cs else statuses span cs)"
| "statuses span (_ # cs) = statuses span cs"

subsection \<open>Library functions\<close>

text \<open>\<open>strings.HasPrefix\<close>.\<close>

definition HasPrefix :: "string \<Rightarrow> string \<Rightarrow> bool" where
  "HasPrefix s pre = (length pre \<le> length s \<and> take (length pre) s = pre)"

text \<open>\<open>strconv.Itoa\<close>: the decimal digits, with a minus sign for a negative number.\<close>

definition digit :: "nat \<Rightarrow> char" where
  "digit d = ''0123456789'' ! d"

function nat_digits :: "nat \<Rightarrow> string" where
  "nat_digits n = (if n < 10 then [digit n] else nat_digits (n div 10) @ [digit (n mod 10)])"
  by pat_completeness auto
termination
  by (relation "measure (\<lambda>n. n)") auto

definition Itoa :: "int \<Rightarrow> string" where
  "Itoa i = (if i < 0 then CHR ''-'' # nat_digits (nat (- i)) else nat_digits (nat i))"

subsection \<open>The route operation name\<close>

text \<open>
  \<open>ProvideRouteOperationName(name)\<close> is the handler that replaces \<open>c.Req\<close> by a copy whose
  context is derived from the old one with \<open>name\<close> under \<open>routeOperationNameKey\<close>.
\<close>

definition ProvideRouteOperationName :: "string \<Rightarrow> macaron_Context \<Rightarrow> macaron_Context" where
  "ProvideRouteOperationName name c =
     (let ctx = WithValue (req_Context (Req c)) routeOperationNameKey (StringVal name)
      in c\<lparr>Req := (Req c)\<lparr>req_Context := ctx\<rparr>\<rparr>)"

text \<open>
  \<open>RouteOperationNameFromContext\<close>: a non-nil value is type-asserted to a string; a value
  of another type gives the empty string and \<open>false\<close>, as does a missing one.
\<close>

definition RouteOperationNameFromContext :: "Context \<Rightarrow> string \<times> bool" where
  "RouteOperationNameFromContext ctx =
     (case Value ctx routeOperationNameKey of
        NilVal \<Rightarrow> ('''', False)
      | StringVal op \<Rightarrow> (op, True)
      | _ \<Rightarrow> ('''', False))"

subsection \<open>The tracing middleware\<close>

text \<open>The paths that are not traced: the test at the head of the handler.\<close>

abbreviation bypassed :: "string \<Rightarrow> bool" where
  "bypassed path \<equiv> HasPrefix path ''/public/'' \<or> path = ''robots.txt''"

text \<open>
  \<open>RequestTracing()\<close> returns a handler of \<open>res\<close>, \<open>req\<close> and \<open>c\<close>. The propagator's
  \<open>Extract\<close> and the rest of the handler chain behind \<open>c.Next()\<close> are parameters. The
  handler's result is how it leaves (returning or panicking, with the macaron context) and
  the tracer's call log. \<open>span.End\<close> is deferred inside the branch that found a route
  operation name, so it runs last, when the handler returns. No defer is registered
  before \<open>c.Next()\<close>, so a panic of the chain leaves the handler at once.

  The bypass test reads the path of \<open>c.Req\<close>; the span's name, the URI and the method are
  read from the argument \<open>req\<close>; the route operation name is looked up in the context of
  \<open>c.Req\<close> as the chain left it. The writer \<open>res\<close> that macaron passes is always its own
  \<open>macaron.ResponseWriter\<close>, so the type assertion on it succeeds. The status is a Go
  \<open>int\<close> that is only compared and printed, never computed with, so it is an \<open>int\<close> here.
\<close>

definition RequestTracing ::
  "(Context \<Rightarrow> header \<Rightarrow> Context) \<Rightarrow> (macaron_Context \<Rightarrow> outcome) \<Rightarrow>
   request \<Rightarrow> macaron_Context \<Rightarrow> span_call list \<Rightarrow> outcome \<times> span_call list" where
  "RequestTracing Extract Next req c tr =
     (if bypassed (URL_Path (Req c))
      then (Next c, tr)
      else
        let wireContext = Extract (req_Context req) (Header req);
            (ctx, span, tr) =
               Tracer_Start tr (req_Context req)
                 (''HTTP '' @ Method req @ '' '' @ URL_Path req) (LinkFromContext wireContext);
            c = c\<lparr>Req := req\<lparr>req_Context := ctx\<rparr>\<rparr>;
            c = c\<lparr>Mapped := Req c\<rparr>
        in case Next c of
             Panic c \<Rightarrow> (Panic c, tr)
           | Return c \<Rightarrow>
               let (routeOperation, found) = RouteOperationNameFromContext (req_Context (Req c));
                   tr = (if found
                         then tr @ [SetName span (''HTTP '' @ Method req @ '' '' @ routeOperation)]
                         else tr);
                   status = Resp_Status c;
                   tr = tr @ [SetAttributes span (Int_attr ''HTTP response status code'' status)];
                   tr = tr @ [SetAttributes span (String_attr ''HTTP request URI'' (RequestURI req))];
                   tr = tr @ [SetAttributes span (String_attr ''HTTP request method'' (Method req))];
                   tr = (if 400 \<le> status
                         then tr @ [SetStatus span Error
                                      (''error with HTTP status code '' @ Itoa status)]
                         else tr);
                   tr = (if found then tr @ [End span] else tr)
               in (Return c, tr))"


subsection \<open>Example requests and handler chains\<close>

definition example_request :: request where
  "example_request =
     \<lparr>Method = ''GET'', URL_Path = ''/api/org/preferences/'',
      RequestURI = ''/api/org/preferences/?full=1'',
      Header = [(''Traceparent'', [''00-0af7651916cd43dd8448eb211c80319c-b7ad6b7169203331-01''])],
      req_Context = Background\<rparr>"

definition example_c :: macaron_Context where
  "example_c = \<lparr>Req = example_request, Mapped = example_request, Resp_Status = 0\<rparr>"

definition public_c :: macaron_Context where
  "public_c = example_c\<lparr>Req := example_request\<lparr>URL_Path := ''/public/img/logo.svg''\<rparr>\<rparr>"

text \<open>A request for the robots file: its path starts with a slash, as every request path does.\<close>

definition robots_request :: request where
  "robots_request =
     \<lparr>Method = ''GET'', URL_Path = ''/robots.txt'', RequestURI = ''/robots.txt'',
      Header = [], req_Context = Background\<rparr>"

definition robots_c :: macaron_Context where
  "robots_c = \<lparr>Req = robots_request, Mapped = robots_request, Resp_Status = 0\<rparr>"

text \<open>A chain that serves a file: status 200, no route operation name.\<close>

definition static_200 :: "macaron_Context \<Rightarrow> outcome" where
  "static_200 c = Return (c\<lparr>Resp_Status := 200\<rparr>)"

text \<open>A request whose path holds a parameter, and a router that names its route template.\<close>

definition param_request :: request where
  "param_request =
     \<lparr>Method = ''PUT'', URL_Path = ''/api/org/17/preferences'',
      RequestURI = ''/api/org/17/preferences?full=1'',
      Header = [], req_Context = Background\<rparr>"

definition param_c :: macaron_Context where
  "param_c = \<lparr>Req = param_request, Mapped = param_request, Resp_Status = 0\<rparr>"

definition router_param :: "macaron_Context \<Rightarrow> outcome" where
  "router_param c =
     Return ((ProvideRouteOperationName ''/api/org/:id/preferences'' c)\<lparr>Resp_Status := 200\<rparr>)"

text \<open>A propagator that finds no upstream trace in the headers.\<close>

definition Extract_none :: "Context \<Rightarrow> header \<Rightarrow> Context" where
  "Extract_none ctx h = ctx"

text \<open>A chain whose router names the route and whose handler answers 403.\<close>

definition router_403 :: "macaron_Context \<Rightarrow> outcome" where
  "router_403 c =
     Return ((ProvideRouteOperationName ''/api/org/preferences/'' c)\<lparr>Resp_Status := 403\<rparr>)"

text \<open>A chain that names the route and answers 200.\<close>

definition router_200 :: "macaron_Context \<Rightarrow> outcome" where
  "router_200 c =
     Return ((ProvideRouteOperationName ''/api/org/preferences/'' c)\<lparr>Resp_Status := 200\<rparr>)"

text \<open>A chain that matches no named route and answers 404, and one that panics.\<close>

definition unmatched_404 :: "macaron_Context \<Rightarrow> outcome" where
  "unmatched_404 c = Return (c\<lparr>Resp_Status := 404\<rparr>)"

definition handler_panics :: "macaron_Context \<Rightarrow> outcome" where
  "handler_panics c = Panic c"

text \<open>The context that \<open>Tracer_Start\<close> derives for the first span of a log.\<close>

definition span_ctx :: Context where
  "span_ctx = WithValue Background currentSpanKey (SpanVal 0)"

definition example_link :: link where
  "example_link = LinkFromContext Background"

section \<open>Properties\<close>

subsection \<open>The readers of the call log distribute over appended calls\<close>

lemma starts_append: "starts (xs @ ys) = starts xs @ starts ys"
  by (induction xs rule: starts.induct) simp_all

lemma ends_append: "ends (xs @ ys) = ends xs @ ends ys"
  by (induction xs rule: ends.induct) simp_all

lemma names_append: "names s (xs @ ys) = names s xs @ names s ys"
  by (induction s xs rule: names.induct) simp_all

lemma attributes_append: "attributes s (xs @ ys) = attributes s xs @ attributes s ys"
  by (induction s xs rule: attributes.induct) simp_all

lemma statuses_append: "statuses s (xs @ ys) = statuses s xs @ statuses s ys"
  by (induction s xs rule: statuses.induct) simp_all

lemmas log_readers_append =
  starts_append ends_append names_append attributes_append statuses_append

lemma Value_not_provided:
  "\<not> route_name_provided ctx \<Longrightarrow> Value ctx routeOperationNameKey = NilVal"
  by (induction ctx) auto

subsection \<open>The calls of one traced request\<close>

text \<open>
  When the chain panics, the handler has made one call, the \<open>Start\<close>. When the chain
  returns, the handler appends, in this order: the \<open>Start\<close>; the \<open>SetName\<close> if a route
  operation name is found in the context of \<open>c.Req\<close>; the three \<open>SetAttributes\<close>; the
  \<open>SetStatus\<close> if the status is at least 400; the deferred \<open>End\<close> if the name was found.
\<close>

lemma RequestTracing_Panic_log:
  assumes "\<not> bypassed (URL_Path (Req c))"
    and "fst (RequestTracing Extract Next req c tr) = Panic c'"
  shows "snd (RequestTracing Extract Next req c tr) =
           tr @ [Start (length (starts tr)) (''HTTP '' @ Method req @ '' '' @ URL_Path req)
                   (LinkFromContext (Extract (req_Context req) (Header req)))]"
  using assms
  by (auto simp: RequestTracing_def Tracer_Start_def Let_def
           split: outcome.splits prod.splits if_splits)

lemma RequestTracing_Return_log:
  assumes "\<not> bypassed (URL_Path (Req c))"
    and "fst (RequestTracing Extract Next req c tr) = Return c'"
  shows "snd (RequestTracing Extract Next req c tr) =
           tr @ [Start (length (starts tr)) (''HTTP '' @ Method req @ '' '' @ URL_Path req)
                   (LinkFromContext (Extract (req_Context req) (Header req)))]
              @ (if snd (RouteOperationNameFromContext (req_Context (Req c')))
                 then [SetName (length (starts tr))
                         (''HTTP '' @ Method req @ '' '' @
                          fst (RouteOperationNameFromContext (req_Context (Req c'))))]
                 else [])
              @ [SetAttributes (length (starts tr))
                   (Int_attr ''HTTP response status code'' (Resp_Status c')),
                 SetAttributes (length (starts tr))
                   (String_attr ''HTTP request URI'' (RequestURI req)),
                 SetAttributes (length (starts tr))
                   (String_attr ''HTTP request method'' (Method req))]
              @ (if 400 \<le> Resp_Status c'
                 then [SetStatus (length (starts tr)) Error
                         (''error with HTTP status code '' @ Itoa (Resp_Status c'))]
                 else [])
              @ (if snd (RouteOperationNameFromContext (req_Context (Req c')))
                 then [End (length (starts tr))] else [])"
  using assms
  by (auto simp: RequestTracing_def Tracer_Start_def Let_def
           split: outcome.splits prod.splits if_splits)


subsection \<open>Evaluating the examples\<close>

lemmas example_defs =
  example_request_def example_c_def public_c_def robots_c_def Extract_none_def
  router_403_def router_200_def unmatched_404_def handler_panics_def span_ctx_def
  example_link_def robots_request_def static_200_def param_request_def param_c_def
  router_param_def

lemmas run_defs =
  RequestTracing_def Tracer_Start_def ProvideRouteOperationName_def
  RouteOperationNameFromContext_def HasPrefix_def Let_def

lemma example_c_not_bypassed: "\<not> bypassed (URL_Path (Req example_c))"
  by (simp add: example_defs HasPrefix_def)

lemma router_403_returns:
  "fst (RequestTracing Extract_none router_403 example_request example_c []) =
     Return ((ProvideRouteOperationName ''/api/org/preferences/''
               (example_c\<lparr>Req := example_request\<lparr>req_Context := span_ctx\<rparr>,
                          Mapped := example_request\<lparr>req_Context := span_ctx\<rparr>\<rparr>))
             \<lparr>Resp_Status := 403\<rparr>)"
  by (simp add: example_defs run_defs)

lemma router_200_returns:
  "fst (RequestTracing Extract_none router_200 example_request example_c []) =
     Return ((ProvideRouteOperationName ''/api/org/preferences/''
               (example_c\<lparr>Req := example_request\<lparr>req_Context := span_ctx\<rparr>,
                          Mapped := example_request\<lparr>req_Context := span_ctx\<rparr>\<rparr>))
             \<lparr>Resp_Status := 200\<rparr>)"
  by (simp add: example_defs run_defs)

lemma unmatched_404_returns:
  "fst (RequestTracing Extract_none unmatched_404 req example_c []) =
     Return (example_c\<lparr>Req := req\<lparr>req_Context := WithValue (req_Context req) currentSpanKey (SpanVal 0)\<rparr>,
                       Mapped := req\<lparr>req_Context := WithValue (req_Context req) currentSpanKey (SpanVal 0)\<rparr>,
                       Resp_Status := 404\<rparr>)"
  by (simp add: example_defs run_defs case_prod_beta)

lemma provided_example_lookup:
  "RouteOperationNameFromContext
     (req_Context (Req ((ProvideRouteOperationName ''/api/org/preferences/'' c)\<lparr>Resp_Status := s\<rparr>))) =
   (''/api/org/preferences/'', True)"
  by (simp add: ProvideRouteOperationName_def RouteOperationNameFromContext_def)

lemma Itoa_404: "Itoa 404 = ''404''"
  by (simp add: Itoa_def nat_digits.simps digit_def)

lemma Itoa_403: "Itoa 403 = ''403''"
  by (simp add: Itoa_def nat_digits.simps digit_def)

text \<open>
  The path of a real robots request starts with a slash, is not equal to the string the
  handler compares with, and is traced.
\<close>

lemma slash_robots_txt_not_bypassed: "\<not> bypassed ''/robots.txt''"
  by (simp add: HasPrefix_def)

subsection \<open>One span per traced request\<close>

text \<open>
  C1, as claimed, fails: a request to a path that is not bypassed, whose chain returns
  without a route operation name (here with status 404), starts one span and never ends
  it.
\<close>

theorem RequestTracing_unnamed_route_counterexample:
  "\<not> bypassed (URL_Path (Req example_c)) \<and>
   fst (RequestTracing Extract_none unmatched_404 example_request example_c []) =
     Return (example_c\<lparr>Req := example_request\<lparr>req_Context := span_ctx\<rparr>,
                       Mapped := example_request\<lparr>req_Context := span_ctx\<rparr>,
                       Resp_Status := 404\<rparr>) \<and>
   starts (snd (RequestTracing Extract_none unmatched_404 example_request example_c [])) =
     [(0, ''HTTP GET /api/org/preferences/'', example_link)] \<and>
   ends (snd (RequestTracing Extract_none unmatched_404 example_request example_c [])) = []"
  by (simp add: example_defs run_defs)

text \<open>
  C1 (amended): for every request that is not bypassed, the handler starts exactly one
  span, whether the chain returns or panics and whether or not a route operation name was
  set. When the chain returns, the handler ends that span exactly once if a route
  operation name is found in the request's context, and makes no \<open>End\<close> call if none
  is found.
\<close>

theorem RequestTracing_one_start_end_if_named:
  assumes "\<not> bypassed (URL_Path (Req c))"
  shows "length (starts (snd (RequestTracing Extract Next req c tr))) = length (starts tr) + 1 \<and>
         (\<forall>c'. fst (RequestTracing Extract Next req c tr) = Return c' \<longrightarrow>
            ends (snd (RequestTracing Extract Next req c tr)) =
              ends tr @ (if snd (RouteOperationNameFromContext (req_Context (Req c')))
                         then [length (starts tr)] else []))"
proof (cases "fst (RequestTracing Extract Next req c tr)")
  case (Return c')
  from RequestTracing_Return_log [OF assms Return]
  show ?thesis using Return by (simp add: log_readers_append)
next
  case (Panic c')
  from RequestTracing_Panic_log [OF assms Panic]
  show ?thesis using Panic by (simp add: log_readers_append)
qed

text \<open>
  Witness for C1 (amended): the named route answering 403 starts span 0 and ends it once;
  the unmatched route answering 404 starts span 0 and does not end it.
\<close>

theorem RequestTracing_one_start_end_if_named_witness:
  "\<not> bypassed (URL_Path (Req example_c)) \<and>
   length (starts (snd (RequestTracing Extract_none router_403 example_request example_c []))) = 1 \<and>
   ends (snd (RequestTracing Extract_none router_403 example_request example_c [])) = [0] \<and>
   length (starts (snd (RequestTracing Extract_none unmatched_404 example_request example_c []))) = 1 \<and>
   ends (snd (RequestTracing Extract_none unmatched_404 example_request example_c [])) = []"
proof -
  note nb = example_c_not_bypassed
  from RequestTracing_one_start_end_if_named
         [OF nb, of Extract_none router_403 example_request "[]"]
       RequestTracing_one_start_end_if_named
         [OF nb, of Extract_none unmatched_404 example_request "[]"]
       router_403_returns unmatched_404_returns [of example_request] nb
  show ?thesis
    by (simp add: example_defs ProvideRouteOperationName_def RouteOperationNameFromContext_def)
qed

subsection \<open>Bypassed paths\<close>

text \<open>
  When the test at the head of the handler succeeds, the handler is the rest of the chain,
  run on the unchanged macaron context, and the tracer receives no call.
\<close>

lemma RequestTracing_bypass:
  assumes "bypassed (URL_Path (Req c))"
  shows "RequestTracing Extract Next req c tr = (Next c, tr)"
  using assms by (simp add: RequestTracing_def)

text \<open>A static asset under \<open>/public/\<close> is served without a span.\<close>

lemma public_asset_not_traced:
  "RequestTracing Extract_none static_200 example_request public_c [] =
     (Return (public_c\<lparr>Resp_Status := 200\<rparr>), [])"
proof -
  have "bypassed (URL_Path (Req public_c))"
    by (simp add: example_defs HasPrefix_def)
  from RequestTracing_bypass [OF this, of Extract_none static_200 example_request "[]"]
  show ?thesis by (simp add: static_200_def)
qed

text \<open>
  C2: the code bypasses the static prefix, but misses the robots file. The handler compares
  the path with \<open>robots.txt\<close>, without the leading slash that the path of every request
  has, so the test never succeeds for the robots file. A request for \<open>/robots.txt\<close>,
  served with status 200 and no route operation name, is traced: a span named
  \<open>HTTP GET /robots.txt\<close> is started, gets its three attributes, and is never ended.
\<close>

theorem RequestTracing_slash_robots_traced:
  "RequestTracing Extract_none static_200 robots_request robots_c [] =
     (Return (robots_c\<lparr>Req := robots_request\<lparr>req_Context := span_ctx\<rparr>,
                       Mapped := robots_request\<lparr>req_Context := span_ctx\<rparr>,
                       Resp_Status := 200\<rparr>),
      [Start 0 ''HTTP GET /robots.txt'' example_link,
       SetAttributes 0 (Int_attr ''HTTP response status code'' 200),
       SetAttributes 0 (String_attr ''HTTP request URI'' ''/robots.txt''),
       SetAttributes 0 (String_attr ''HTTP request method'' ''GET'')])"
  by (simp add: example_defs run_defs)

subsection \<open>The name of the span\<close>



subsection \<open>Error status\<close>

text \<open>
  C4: for a request that is not bypassed and whose chain returns, the handler sets the
  span's status to error, with the message \<open>error with HTTP status code\<close> followed by the
  decimal status code, if the response status is at least 400, and makes no \<open>SetStatus\<close>
  call otherwise.
\<close>

theorem RequestTracing_error_status:
  assumes "\<not> bypassed (URL_Path (Req c))"
    and "fst (RequestTracing Extract Next req c tr) = Return c'"
  shows "statuses (length (starts tr)) (snd (RequestTracing Extract Next req c tr)) =
           statuses (length (starts tr)) tr @
           (if 400 \<le> Resp_Status c'
            then [(Error, ''error with HTTP status code '' @ Itoa (Resp_Status c'))]
            else [])"
  by (simp add: RequestTracing_Return_log [OF assms] log_readers_append)

text \<open>Witness for C4: status 404 gives an error whose message ends in 404; status 200 none.\<close>

theorem RequestTracing_error_status_witness:
  "\<not> bypassed (URL_Path (Req example_c)) \<and>
   statuses 0 (snd (RequestTracing Extract_none unmatched_404 example_request example_c [])) =
     [(Error, ''error with HTTP status code 404'')] \<and>
   statuses 0 (snd (RequestTracing Extract_none router_200 example_request example_c [])) = []"
proof -
  note nb = example_c_not_bypassed
  from RequestTracing_error_status [OF nb unmatched_404_returns [of example_request]]
       RequestTracing_error_status [OF nb router_200_returns] nb Itoa_404
  show ?thesis by simp
qed

subsection \<open>Attributes\<close>

text \<open>
  C5: for a request that is not bypassed and whose chain returns, the handler attaches
  exactly three attributes to the span: the response status code as an integer, the
  request URI as a string, and the method as a string.
\<close>

theorem RequestTracing_attributes:
  assumes "\<not> bypassed (URL_Path (Req c))"
    and "fst (RequestTracing Extract Next req c tr) = Return c'"
  shows "attributes (length (starts tr)) (snd (RequestTracing Extract Next req c tr)) =
           attributes (length (starts tr)) tr @
           [Int_attr ''HTTP response status code'' (Resp_Status c'),
            String_attr ''HTTP request URI'' (RequestURI req),
            String_attr ''HTTP request method'' (Method req)]"
  by (simp add: RequestTracing_Return_log [OF assms] log_readers_append)

text \<open>Witness for C5: the URI keeps its query string.\<close>

theorem RequestTracing_attributes_witness:
  "\<not> bypassed (URL_Path (Req example_c)) \<and>
   attributes 0 (snd (RequestTracing Extract_none router_403 example_request example_c [])) =
     [Int_attr ''HTTP response status code'' 403,
      String_attr ''HTTP request URI'' ''/api/org/preferences/?full=1'',
      String_attr ''HTTP request method'' ''GET'']"
proof -
  note nb = example_c_not_bypassed
  from RequestTracing_attributes [OF nb router_403_returns] nb
  show ?thesis by (simp add: example_defs)
qed

subsection \<open>The name the span is started with\<close>

text \<open>
  C6: for a request that is not bypassed, the first call the handler makes on the tracer
  starts a span named \<open>HTTP <method> <path>\<close>, from the method and the URL path of the
  request, whether the chain then returns or panics.
\<close>

theorem RequestTracing_initial_name:
  assumes "\<not> bypassed (URL_Path (Req c))"
  shows "take (Suc (length tr)) (snd (RequestTracing Extract Next req c tr)) =
           tr @ [Start (length (starts tr)) (''HTTP '' @ Method req @ '' '' @ URL_Path req)
                   (LinkFromContext (Extract (req_Context req) (Header req)))]"
proof (cases "fst (RequestTracing Extract Next req c tr)")
  case (Return c')
  show ?thesis by (simp add: RequestTracing_Return_log [OF assms Return])
next
  case (Panic c')
  show ?thesis by (simp add: RequestTracing_Panic_log [OF assms Panic])
qed

text \<open>Witness for C6: the path with its parameter, not a route template.\<close>

theorem RequestTracing_initial_name_witness:
  "\<not> bypassed (URL_Path (Req example_c)) \<and>
   take (Suc 0) (snd (RequestTracing Extract_none handler_panics
                        (example_request\<lparr>URL_Path := ''/api/org/17/preferences''\<rparr>) example_c [])) =
     [Start 0 ''HTTP GET /api/org/17/preferences'' example_link]"
proof -
  note nb = example_c_not_bypassed
  from RequestTracing_initial_name [OF nb, of "[]" Extract_none handler_panics
         "example_request\<lparr>URL_Path := ''/api/org/17/preferences''\<rparr>"] nb
  show ?thesis by (simp add: example_defs)
qed

subsection \<open>The route operation name store\<close>

text \<open>
  C7: on a context to which no route operation name was ever added, the lookup returns
  the empty name and \<open>found = False\<close>. The lookup is a total function of the context.
\<close>

theorem RouteOperationNameFromContext_absent:
  assumes "\<not> route_name_provided ctx"
  shows "RouteOperationNameFromContext ctx = ('''', False)"
  using assms by (simp add: RouteOperationNameFromContext_def Value_not_provided)

text \<open>Witness for C7: the context freshly derived by starting a span.\<close>

theorem RouteOperationNameFromContext_absent_witness:
  "\<not> route_name_provided span_ctx \<and> RouteOperationNameFromContext span_ctx = ('''', False)"
proof -
  have h: "\<not> route_name_provided span_ctx" by (simp add: span_ctx_def)
  from RouteOperationNameFromContext_absent [OF h] h show ?thesis by simp
qed

text \<open>
  C8: for every macaron context and every name (empty or not), providing the name gives
  \<open>c.Req\<close> a context on which the lookup returns the name and \<open>True\<close>. That context is
  derived from the old one, which is its unchanged parent: every other key reads as
  before, and the request registered earlier with \<open>c.Map\<close> keeps its context.
\<close>

theorem ProvideRouteOperationName_found:
  "RouteOperationNameFromContext (req_Context (Req (ProvideRouteOperationName name c))) =
     (name, True) \<and>
   req_Context (Req (ProvideRouteOperationName name c)) =
     WithValue (req_Context (Req c)) routeOperationNameKey (StringVal name) \<and>
   Value (req_Context (Req (ProvideRouteOperationName name c))) key =
     (if key = routeOperationNameKey then StringVal name else Value (req_Context (Req c)) key) \<and>
   Mapped (ProvideRouteOperationName name c) = Mapped c"
  by (simp add: ProvideRouteOperationName_def RouteOperationNameFromContext_def)

text \<open>
  C9: providing a second route operation name overrides the first: the lookup returns
  the name provided last.
\<close>

theorem ProvideRouteOperationName_last_wins:
  "RouteOperationNameFromContext
     (req_Context (Req (ProvideRouteOperationName b (ProvideRouteOperationName a c)))) =
   (b, True)"
  by (simp add: ProvideRouteOperationName_def RouteOperationNameFromContext_def)

subsection \<open>The order of the calls\<close>

text \<open>
  C10: for a request that is not bypassed, whose chain returns with the route operation
  name \<open>X\<close> set, the calls the handler makes are, in order: the start of the span, its
  renaming, the three attributes, the error status if the status code is at least 400, and
  last the end of the span.
\<close>

theorem RequestTracing_End_last:
  assumes "\<not> bypassed (URL_Path (Req c))"
    and "fst (RequestTracing Extract Next req c tr) = Return c'"
    and "RouteOperationNameFromContext (req_Context (Req c')) = (X, True)"
  shows "snd (RequestTracing Extract Next req c tr) =
           tr @ [Start (length (starts tr)) (''HTTP '' @ Method req @ '' '' @ URL_Path req)
                   (LinkFromContext (Extract (req_Context req) (Header req))),
                 SetName (length (starts tr)) (''HTTP '' @ Method req @ '' '' @ X),
                 SetAttributes (length (starts tr))
                   (Int_attr ''HTTP response status code'' (Resp_Status c')),
                 SetAttributes (length (starts tr))
                   (String_attr ''HTTP request URI'' (RequestURI req)),
                 SetAttributes (length (starts tr))
                   (String_attr ''HTTP request method'' (Method req))]
              @ (if 400 \<le> Resp_Status c'
                 then [SetStatus (length (starts tr)) Error
                         (''error with HTTP status code '' @ Itoa (Resp_Status c'))]
                 else [])
              @ [End (length (starts tr))]"
  using assms(3) by (simp add: RequestTracing_Return_log [OF assms(1,2)])

text \<open>Witness for C10: the calls of the named route that answers 403.\<close>

theorem RequestTracing_End_last_witness:
  "\<not> bypassed (URL_Path (Req example_c)) \<and>
   snd (RequestTracing Extract_none router_403 example_request example_c []) =
     [Start 0 ''HTTP GET /api/org/preferences/'' example_link,
      SetName 0 ''HTTP GET /api/org/preferences/'',
      SetAttributes 0 (Int_attr ''HTTP response status code'' 403),
      SetAttributes 0 (String_attr ''HTTP request URI'' ''/api/org/preferences/?full=1''),
      SetAttributes 0 (String_attr ''HTTP request method'' ''GET''),
      SetStatus 0 Error ''error with HTTP status code 403'',
      End 0]"
proof -
  note nb = example_c_not_bypassed
  from RequestTracing_End_last [OF nb router_403_returns provided_example_lookup] nb Itoa_403
  show ?thesis by (simp add: example_defs ProvideRouteOperationName_def)
qed

end
